theory Spec2Isabelle
  imports Main
begin

section \<open>The values \<^verbatim>\<open>json.load\<close> returns\<close>

text \<open>
  \<^verbatim>\<open>scripts/mcps.py\<close> reads a JSON file, updates or appends an entry of its
  \<^verbatim>\<open>mcpRepos\<close> list and writes the file back. The document is dynamically typed:
  \<^verbatim>\<open>json.load\<close> may return any JSON value, at the top and at every field, so the
  model keeps all of them. A Python \<^verbatim>\<open>dict\<close> keeps its keys in insertion order, so
  an object is an association list; the program never computes with a number, so a
  float is carried as its literal.
\<close>

datatype json =
    JNull
  | JBool bool
  | JInt int
  | JFloat string
  | JStr string
  | JArr "json list"
  | JObj "(string \<times> json) list"

text \<open>Python's name of the type of a value, as it appears in error messages.\<close>

fun type_name :: "json \<Rightarrow> string" where
  "type_name JNull = ''NoneType''"
| "type_name (JBool _) = ''bool''"
| "type_name (JInt _) = ''int''"
| "type_name (JFloat _) = ''float''"
| "type_name (JStr _) = ''str''"
| "type_name (JArr _) = ''list''"
| "type_name (JObj _) = ''dict''"

subsection \<open>Exceptions\<close>

text \<open>
  Every exception a step of \<^verbatim>\<open>update_mcps\<close> can raise, with the message that
  \<^verbatim>\<open>str(e)\<close> gives. All of them are subclasses of \<^verbatim>\<open>Exception\<close>.
\<close>

datatype error =
    OSError string
  | JSONDecodeError string
  | AttributeError string
  | TypeError string
  | IndexError string
  | KeyError string

fun str :: "error \<Rightarrow> string" where
  "str (OSError m) = m"
| "str (JSONDecodeError m) = m"
| "str (AttributeError m) = m"
| "str (TypeError m) = m"
| "str (IndexError m) = m"
| "str (KeyError k) = [CHR 0x27] @ k @ [CHR 0x27]"

definition no_attribute :: "json \<Rightarrow> string \<Rightarrow> error" where
  "no_attribute v a =
     AttributeError ([CHR 0x27] @ type_name v @ [CHR 0x27] @ '' object has no attribute ''
                     @ [CHR 0x27] @ a @ [CHR 0x27])"

definition not_iterable :: "json \<Rightarrow> error" where
  "not_iterable v =
     TypeError ([CHR 0x27] @ type_name v @ [CHR 0x27] @ '' object is not iterable'')"

subsection \<open>Dictionaries\<close>

text \<open>
  \<^verbatim>\<open>k in d\<close> and \<^verbatim>\<open>d.get(k)\<close> look a key up; \<^verbatim>\<open>d[k] = v\<close> replaces the value of
  a key that is present, where it stands, and adds a new key at the end.
\<close>

fun dict_get :: "(string \<times> 'v) list \<Rightarrow> string \<Rightarrow> 'v option" where
  "dict_get [] k = None"
| "dict_get ((k', v') # kvs) k = (if k' = k then Some v' else dict_get kvs k)"

fun dict_set :: "string \<Rightarrow> 'v \<Rightarrow> (string \<times> 'v) list \<Rightarrow> (string \<times> 'v) list" where
  "dict_set k v [] = [(k, v)]"
| "dict_set k v ((k', v') # kvs) =
     (if k' = k then (k', v) # kvs else (k', v') # dict_set k v kvs)"

subsection \<open>Strings\<close>

text \<open>
  \<^verbatim>\<open>s.split(sep)\<close> for a separator of one character: the pieces between the
  separators, empty pieces included, so the result is never empty. \<^verbatim>\<open>xs[-1]\<close> is
  the last element and raises \<^verbatim>\<open>IndexError\<close> on an empty list.
\<close>

fun split :: "char \<Rightarrow> string \<Rightarrow> string list" where
  "split sep [] = [[]]"
| "split sep (c # cs) =
     (if c = sep then [] # split sep cs
      else (case split sep cs of
              [] \<Rightarrow> [[c]]
            | p # ps \<Rightarrow> (c # p) # ps))"

fun index_last :: "'a list \<Rightarrow> error + 'a" where
  "index_last [] = Inl (IndexError ''list index out of range'')"
| "index_last [x] = Inr x"
| "index_last (x # y # ys) = index_last (y # ys)"

section \<open>The update of the document\<close>

text \<open>
  The loop of lines 11 to 15:
  \<^verbatim>\<open>
  entry_exists = False
  for repo in data.get('mcpRepos', []):
      if repo.get('url') == repo_url:
          repo['description'] = description
          entry_exists = True
  \<close>
  What \<^verbatim>\<open>for\<close> iterates over depends on the type of the value: the elements of a
  list, the characters of a string, the keys of a dict; any other JSON value raises
  \<^verbatim>\<open>TypeError\<close>. (A character is a code point in Python and a byte of the
  \<open>string\<close> here; the loop body raises on the first one either way.)
\<close>

fun iter :: "json \<Rightarrow> error + json list" where
  "iter (JArr es) = Inr es"
| "iter (JStr s) = Inr (map (\<lambda>c. JStr [c]) s)"
| "iter (JObj kvs) = Inr (map (\<lambda>kv. JStr (fst kv)) kvs)"
| "iter v = Inl (not_iterable v)"

text \<open>
  The loop body on one element. \<^verbatim>\<open>repo.get\<close> exists on a dict only, and returns
  \<^verbatim>\<open>None\<close> for a missing key; \<^verbatim>\<open>repo_url\<close> is a string, which only an equal string
  equals. The state of the loop is the elements visited so far, as the loop left
  them, and \<^verbatim>\<open>entry_exists\<close>.
\<close>

fun scan_repos ::
  "string \<Rightarrow> string \<Rightarrow> json list \<Rightarrow> json list \<times> bool \<Rightarrow> error + json list \<times> bool" where
  "scan_repos repo_url description [] (visited, entry_exists) = Inr (visited, entry_exists)"
| "scan_repos repo_url description (repo # rest) (visited, entry_exists) =
     (case repo of
        JObj flds \<Rightarrow>
          (if (case dict_get flds ''url'' of None \<Rightarrow> JNull | Some v \<Rightarrow> v) = JStr repo_url
           then scan_repos repo_url description rest
                  (visited @ [JObj (dict_set ''description'' (JStr description) flds)], True)
           else scan_repos repo_url description rest (visited @ [repo], entry_exists))
      | _ \<Rightarrow> Inl (no_attribute repo ''get''))"

text \<open>Lines 19 and 20: the entry that is added when no entry has the URL.\<close>

definition repo_name :: "string \<Rightarrow> error + string" where
  "repo_name repo_url = index_last (split CHR ''/'' repo_url)"

definition new_entry :: "string \<Rightarrow> string \<Rightarrow> string \<Rightarrow> json" where
  "new_entry name repo_url description =
     JObj [(''name'', JStr name), (''url'', JStr repo_url), (''description'', JStr description)]"

text \<open>
  Lines 21 to 23, on the dict \<^verbatim>\<open>data\<close>: the key is created with an empty list when
  it is missing, then \<^verbatim>\<open>append\<close> is called on its value, which only a list has.
\<close>

definition add_entry :: "(string \<times> json) list \<Rightarrow> json \<Rightarrow> error + (string \<times> json) list" where
  "add_entry kvs entry =
     (let kvs1 = (if dict_get kvs ''mcpRepos'' = None
                  then dict_set ''mcpRepos'' (JArr []) kvs else kvs)
      in case dict_get kvs1 ''mcpRepos'' of
           None \<Rightarrow> Inl (KeyError ''mcpRepos'')
         | Some (JArr es) \<Rightarrow> Inr (dict_set ''mcpRepos'' (JArr (es @ [entry])) kvs1)
         | Some v \<Rightarrow> Inl (no_attribute v ''append''))"

text \<open>
  Lines 11 to 23 on the parsed document. The loop changes the entries where they
  are, inside \<^verbatim>\<open>data\<close>: when the field holds a list, the list after the loop is the
  one the loop left; the default \<^verbatim>\<open>[]\<close> of \<^verbatim>\<open>get\<close>, the characters of a string and
  the keys of a dict are not part of \<^verbatim>\<open>data\<close>.
\<close>

definition mutate :: "json \<Rightarrow> string \<Rightarrow> string \<Rightarrow> error + json" where
  "mutate data repo_url description =
     (case data of
        JObj kvs \<Rightarrow>
          (case iter (case dict_get kvs ''mcpRepos'' of None \<Rightarrow> JArr [] | Some v \<Rightarrow> v) of
             Inl e \<Rightarrow> Inl e
           | Inr repos \<Rightarrow>
               (case scan_repos repo_url description repos ([], False) of
                  Inl e \<Rightarrow> Inl e
                | Inr (repos', entry_exists) \<Rightarrow>
                    (let kvs1 = (case dict_get kvs ''mcpRepos'' of
                                   Some (JArr _) \<Rightarrow> dict_set ''mcpRepos'' (JArr repos') kvs
                                 | _ \<Rightarrow> kvs)
                     in if \<not> entry_exists
                        then (case repo_name repo_url of
                                Inl e \<Rightarrow> Inl e
                              | Inr name \<Rightarrow>
                                  (case add_entry kvs1 (new_entry name repo_url description) of
                                     Inl e \<Rightarrow> Inl e
                                   | Inr kvs2 \<Rightarrow> Inr (JObj kvs2)))
                        else Inr (JObj kvs1))))
      | _ \<Rightarrow> Inl (no_attribute data ''get''))"

section \<open>Files, streams and the program\<close>

text \<open>
  A file is what the program can observe of it: whether \<^verbatim>\<open>open(path, 'r')\<close> and
  \<^verbatim>\<open>open(path, 'w')\<close> raise \<^verbatim>\<open>OSError\<close> (a missing file, a directory, a missing
  permission) and with which message, and what \<^verbatim>\<open>json.load\<close> makes of its
  contents: the parsed value, or the message of the decoder's error. \<^verbatim>\<open>json.dump\<close>
  followed by \<^verbatim>\<open>json.load\<close> gives the value back, so a written file holds the value
  that was written. A write that fails after the file has been opened (a full disk)
  is outside the model. Standard output and standard error are the lines printed
  so far.
\<close>

record disk_file =
  contents :: "string + json"
  read_error :: "string option"
  write_error :: "string option"

record world =
  fs :: "string \<Rightarrow> disk_file"
  out :: "string list"
  err :: "string list"

text \<open>Lines 7 and 8.\<close>

definition json_load :: "world \<Rightarrow> string \<Rightarrow> error + json" where
  "json_load w json_file =
     (case read_error (fs w json_file) of
        Some m \<Rightarrow> Inl (OSError m)
      | None \<Rightarrow>
          (case contents (fs w json_file) of
             Inl m \<Rightarrow> Inl (JSONDecodeError m)
           | Inr data \<Rightarrow> Inr data))"

text \<open>
  Lines 26 and 27. \<open>store\<close> is the world after the file has been overwritten with
  the serialised value; nothing else of the world changes.
\<close>

definition store :: "world \<Rightarrow> string \<Rightarrow> json \<Rightarrow> world" where
  "store w json_file data =
     w\<lparr>fs := (fs w)(json_file := (fs w json_file)\<lparr>contents := Inr data\<rparr>)\<rparr>"

definition json_dump :: "world \<Rightarrow> string \<Rightarrow> json \<Rightarrow> error + world" where
  "json_dump w json_file data =
     (case write_error (fs w json_file) of
        Some m \<Rightarrow> Inl (OSError m)
      | None \<Rightarrow> Inr (store w json_file data))"

text \<open>The body of the \<^verbatim>\<open>try\<close>, lines 6 to 29: an exception of any step ends it.\<close>

definition try_body :: "world \<Rightarrow> string \<Rightarrow> string \<Rightarrow> string \<Rightarrow> error + world" where
  "try_body w json_file repo_url description =
     (case json_load w json_file of
        Inl e \<Rightarrow> Inl e
      | Inr data \<Rightarrow>
          (case mutate data repo_url description of
             Inl e \<Rightarrow> Inl e
           | Inr data' \<Rightarrow> json_dump w json_file data'))"

text \<open>
  \<^verbatim>\<open>update_mcps\<close>, lines 4 to 32: \<^verbatim>\<open>except Exception\<close> catches every error of the
  body, prints it to standard error and returns \<^verbatim>\<open>False\<close>.
\<close>

definition update_mcps :: "world \<Rightarrow> string \<Rightarrow> string \<Rightarrow> string \<Rightarrow> bool \<times> world" where
  "update_mcps w json_file repo_url description =
     (case try_body w json_file repo_url description of
        Inr w' \<Rightarrow> (True, w')
      | Inl e \<Rightarrow> (False, w\<lparr>err := err w @ [''Error updating JSON file: '' @ str e]\<rparr>))"

text \<open>
  The script, lines 34 to 46, on \<^verbatim>\<open>sys.argv\<close>: the result is the exit status of the
  process and the world it leaves.
\<close>

definition usage :: string where
  "usage = ''Usage: python mcps.py JSON_FILE REPO_URL DESCRIPTION''"

definition main :: "string list \<Rightarrow> world \<Rightarrow> int \<times> world" where
  "main argv w =
     (if length argv < 4 then (1, w\<lparr>out := out w @ [usage]\<rparr>)
      else (let json_file = argv ! 1;
                repo_url = argv ! 2;
                description = argv ! 3;
                (success, w') = update_mcps w json_file repo_url description
            in if \<not> success then (1, w') else (0, w')))"

section \<open>Vocabulary of the properties\<close>

text \<open>
  The words the properties below are stated in. \<open>field\<close> reads a field of an entry
  (no value on anything that is not an object); an entry \<open>has_url\<close> when the test of
  line 13 succeeds on it; \<open>touch\<close> is what the properties say the loop does to one
  entry; \<open>entries\<close> is the entry list of a document, empty when the field is missing;
  a document is \<open>well_shaped\<close> when its entry list, if present, is a list of
  objects.
\<close>

definition is_dict :: "json \<Rightarrow> bool" where
  "is_dict v = (case v of JObj _ \<Rightarrow> True | _ \<Rightarrow> False)"

definition is_list :: "json \<Rightarrow> bool" where
  "is_list v = (case v of JArr _ \<Rightarrow> True | _ \<Rightarrow> False)"

definition field :: "json \<Rightarrow> string \<Rightarrow> json option" where
  "field v k = (case v of JObj flds \<Rightarrow> dict_get flds k | _ \<Rightarrow> None)"

definition has_url :: "string \<Rightarrow> json \<Rightarrow> bool" where
  "has_url repo_url repo = (field repo ''url'' = Some (JStr repo_url))"

definition set_description :: "string \<Rightarrow> json \<Rightarrow> json" where
  "set_description description repo =
     (case repo of
        JObj flds \<Rightarrow> JObj (dict_set ''description'' (JStr description) flds)
      | _ \<Rightarrow> repo)"

definition touch :: "string \<Rightarrow> string \<Rightarrow> json \<Rightarrow> json" where
  "touch repo_url description repo =
     (if has_url repo_url repo then set_description description repo else repo)"

definition entries :: "(string \<times> json) list \<Rightarrow> json list" where
  "entries kvs = (case dict_get kvs ''mcpRepos'' of Some (JArr es) \<Rightarrow> es | _ \<Rightarrow> [])"

definition well_shaped :: "(string \<times> json) list \<Rightarrow> bool" where
  "well_shaped kvs =
     (case dict_get kvs ''mcpRepos'' of
        None \<Rightarrow> True
      | Some (JArr es) \<Rightarrow> list_all is_dict es
      | Some _ \<Rightarrow> False)"

text \<open>The entry list that the update leaves in a well-shaped document, in closed form.\<close>

definition updated :: "(string \<times> json) list \<Rightarrow> string \<Rightarrow> string \<Rightarrow> json list" where
  "updated kvs u d =
     (if list_ex (has_url u) (entries kvs) then map (touch u d) (entries kvs)
      else entries kvs @ [new_entry (last (split CHR ''/'' u)) u d])"

subsection \<open>Example worlds\<close>

text \<open>
  A file system with one regular file, which holds a JSON value and can be read and
  written; every other path is missing: reading it raises \<^verbatim>\<open>FileNotFoundError\<close>.
  Nothing has been printed yet.
\<close>

definition missing :: "string \<Rightarrow> disk_file" where
  "missing path =
     \<lparr>contents = Inl [],
      read_error = Some (''[Errno 2] No such file or directory: '' @ [CHR 0x27] @ path @ [CHR 0x27]),
      write_error = None\<rparr>"

definition regular :: "json \<Rightarrow> disk_file" where
  "regular data = \<lparr>contents = Inr data, read_error = None, write_error = None\<rparr>"

definition one_file :: "string \<Rightarrow> json \<Rightarrow> world" where
  "one_file path data = \<lparr>fs = missing(path := regular data), out = [], err = []\<rparr>"

section \<open>Auxiliary facts\<close>

subsection \<open>Dictionaries and strings\<close>

lemma dict_get_set_same: "dict_get (dict_set k v kvs) k = Some v"
  by (induction kvs) auto

lemma dict_get_set_other: "k' \<noteq> k \<Longrightarrow> dict_get (dict_set k v kvs) k' = dict_get kvs k'"
  by (induction kvs) auto

lemma dict_set_absent: "dict_get kvs k = None \<Longrightarrow> dict_set k v kvs = kvs @ [(k, v)]"
  by (induction kvs) (auto split: if_splits)

lemma dict_set_keys: "dict_get kvs k \<noteq> None \<Longrightarrow> map fst (dict_set k v kvs) = map fst kvs"
  by (induction kvs) auto

lemma dict_set_twice: "dict_set k v (dict_set k v' kvs) = dict_set k v kvs"
  by (induction kvs) auto

lemma dict_set_present: "dict_get kvs k = Some v \<Longrightarrow> dict_set k v kvs = kvs"
  by (induction kvs) (auto split: if_splits)

lemma split_not_Nil: "split sep s \<noteq> []"
  by (induction s) (auto split: list.splits)

lemma split_no_sep: "sep \<notin> set s \<Longrightarrow> split sep s = [s]"
  by (induction s) auto

lemma split_append: "split sep (p @ sep # s) = split sep p @ split sep s"
  by (induction p) (auto simp: split_not_Nil split: list.splits)

lemma index_last_eq: "xs \<noteq> [] \<Longrightarrow> index_last xs = Inr (last xs)"
  by (induction xs rule: index_last.induct) auto

lemma repo_name_eq: "repo_name u = Inr (last (split CHR ''/'' u))"
  by (simp add: repo_name_def index_last_eq split_not_Nil)

lemma last_split_no_sep: "sep \<notin> set s \<Longrightarrow> last (split sep s) = s"
  by (simp add: split_no_sep)

lemma last_split_after: "sep \<notin> set s \<Longrightarrow> last (split sep (p @ sep # s)) = s"
  by (simp add: split_append split_no_sep)

subsection \<open>The loop over the entries\<close>

lemma url_test: "((case dict_get flds ''url'' of None \<Rightarrow> JNull | Some v \<Rightarrow> v) = JStr u)
                 = has_url u (JObj flds)"
  by (auto simp: has_url_def field_def split: option.splits)

lemma is_dict_JObj: "is_dict (JObj flds)"
  by (simp add: is_dict_def)

lemma is_dict_iff: "is_dict v = (\<exists>flds. v = JObj flds)"
  by (cases v) (simp_all add: is_dict_def)

lemma scan_repos_ok:
  "list_all is_dict rs \<Longrightarrow>
   scan_repos u d rs (acc, ex) = Inr (acc @ map (touch u d) rs, ex \<or> list_ex (has_url u) rs)"
proof (induction rs arbitrary: acc ex)
  case Nil
  then show ?case by simp
next
  case (Cons r rs)
  then obtain flds where r: "r = JObj flds"
    by (auto simp: is_dict_iff)
  from Cons.prems have rs: "list_all is_dict rs" by simp
  show ?case
    using Cons.IH [OF rs]
    by (simp add: r url_test touch_def set_description_def)
qed

lemma scan_repos_fail:
  "\<not> list_all is_dict rs \<Longrightarrow> \<exists>e. scan_repos u d rs (acc, ex) = Inl e"
proof (induction rs arbitrary: acc ex)
  case Nil
  then show ?case by simp
next
  case (Cons r rs)
  show ?case
  proof (cases r)
    case (JObj flds)
    with Cons.prems have "\<not> list_all is_dict rs" by (simp add: is_dict_JObj)
    from Cons.IH [OF this] show ?thesis by (simp add: JObj)
  qed simp_all
qed

lemma touch_no_url: "\<not> has_url u r \<Longrightarrow> touch u d r = r"
  by (simp add: touch_def)

lemma map_touch_no_url: "\<not> list_ex (has_url u) rs \<Longrightarrow> map (touch u d) rs = rs"
  by (induction rs) (auto simp: touch_def)

lemma has_url_touch: "has_url u (touch u' d r) = has_url u r"
  by (cases r) (auto simp: touch_def set_description_def has_url_def field_def dict_get_set_other)

lemma is_dict_touch: "is_dict (touch u d r) = is_dict r"
  by (cases r) (auto simp: touch_def set_description_def is_dict_def)

lemma touch_touch: "touch u d (touch u d r) = touch u d r"
  by (cases r) (auto simp: touch_def set_description_def has_url_def field_def
      dict_get_set_other dict_set_twice)

lemma touch_new_entry: "touch u d (new_entry n u d) = new_entry n u d"
  by (simp add: touch_def set_description_def new_entry_def has_url_def field_def)

lemma has_url_new_entry: "has_url u (new_entry n u d)"
  by (simp add: new_entry_def has_url_def field_def)

lemma is_dict_new_entry: "is_dict (new_entry n u d)"
  by (simp add: new_entry_def is_dict_def)

subsection \<open>The update of a document in closed form\<close>

lemma add_entry_eq:
  "dict_get kvs ''mcpRepos'' = None \<or> (\<exists>es. dict_get kvs ''mcpRepos'' = Some (JArr es)) \<Longrightarrow>
   add_entry kvs entry = Inr (dict_set ''mcpRepos'' (JArr (entries kvs @ [entry])) kvs)"
  by (auto simp: add_entry_def entries_def dict_get_set_same dict_set_twice)

lemma mutate_well_shaped:
  assumes "well_shaped kvs"
  shows "mutate (JObj kvs) u d = Inr (JObj (dict_set ''mcpRepos'' (JArr (updated kvs u d)) kvs))"
proof (cases "dict_get kvs ''mcpRepos''")
  case None
  then show ?thesis
    by (simp add: mutate_def updated_def entries_def repo_name_eq add_entry_eq)
next
  case (Some v)
  with assms obtain es where v: "v = JArr es" and es: "list_all is_dict es"
    by (cases v) (auto simp: well_shaped_def)
  have e: "entries kvs = es"
    by (simp add: entries_def Some v)
  show ?thesis
  proof (cases "list_ex (has_url u) es")
    case True
    then show ?thesis
      by (simp add: mutate_def Some v scan_repos_ok [OF es] updated_def e)
  next
    case False
    have k: "dict_get (dict_set ''mcpRepos'' (JArr es) kvs) ''mcpRepos'' = Some (JArr es)"
      by (simp add: dict_get_set_same)
    have s: "dict_set ''mcpRepos'' (JArr es) kvs = kvs"
      by (simp add: dict_set_present Some v)
    from False show ?thesis
      by (simp add: mutate_def Some v scan_repos_ok [OF es] updated_def e repo_name_eq
          map_touch_no_url s add_entry_eq)
  qed
qed

lemma mutate_ill_shaped:
  assumes "\<not> well_shaped kvs"
  shows "\<exists>e. mutate (JObj kvs) u d = Inl e"
proof -
  from assms obtain v where Some: "dict_get kvs ''mcpRepos'' = Some v"
    by (cases "dict_get kvs ''mcpRepos''") (auto simp: well_shaped_def)
  show ?thesis
  proof (cases v)
    case (JArr es)
    with assms Some have "\<not> list_all is_dict es" by (simp add: well_shaped_def)
    from scan_repos_fail [OF this, of u d "[]" False] show ?thesis
      by (auto simp: mutate_def Some JArr)
  next
    case (JStr s)
    show ?thesis
      by (cases s) (simp_all add: mutate_def Some JStr repo_name_eq add_entry_def)
  next
    case (JObj flds)
    show ?thesis
      by (cases flds) (simp_all add: mutate_def Some JObj repo_name_eq add_entry_def)
  qed (simp_all add: mutate_def Some)
qed

lemma mutate_not_dict: "\<not> is_dict data \<Longrightarrow> mutate data u d = Inl (no_attribute data ''get'')"
  by (cases data) (simp_all add: mutate_def is_dict_def)

subsection \<open>From the document to the file\<close>

lemma update_mcps_ok:
  assumes "json_load w f = Inr data" and "mutate data u d = Inr data'"
    and "write_error (fs w f) = None"
  shows "update_mcps w f u d = (True, store w f data')"
  using assms by (simp add: update_mcps_def try_body_def json_dump_def)

lemma update_mcps_mutate_error:
  assumes "json_load w f = Inr data" and "mutate data u d = Inl e"
  shows "update_mcps w f u d = (False, w\<lparr>err := err w @ [''Error updating JSON file: '' @ str e]\<rparr>)"
  using assms by (simp add: update_mcps_def try_body_def)

lemma update_mcps_well_shaped:
  assumes "json_load w f = Inr (JObj kvs)" and "well_shaped kvs"
    and "write_error (fs w f) = None"
  shows "update_mcps w f u d =
         (True, store w f (JObj (dict_set ''mcpRepos'' (JArr (updated kvs u d)) kvs)))"
  using assms(1) mutate_well_shaped [OF assms(2)] assms(3) by (rule update_mcps_ok)

lemma json_load_store:
  "read_error (fs w f) = None \<Longrightarrow> json_load (store w f data) f = Inr data"
  by (simp add: json_load_def store_def)

lemma store_store: "store (store w f x) f y = store w f y"
  by (simp add: store_def)

lemma json_load_Inr_read: "json_load w f = Inr data \<Longrightarrow> read_error (fs w f) = None"
  by (auto simp: json_load_def split: option.splits)

lemma mutate_idem:
  assumes "mutate data u d = Inr data'"
  shows "mutate data' u d = Inr data'"
proof -
  obtain kvs where data: "data = JObj kvs"
    using assms mutate_not_dict [of data u d] by (auto simp: is_dict_iff)
  have ws: "well_shaped kvs"
    using assms mutate_ill_shaped [of kvs u d] by (auto simp: data)
  define es' where "es' = updated kvs u d"
  define kvs' where "kvs' = dict_set ''mcpRepos'' (JArr es') kvs"
  have data': "data' = JObj kvs'"
    using assms mutate_well_shaped [OF ws, of u d] by (simp add: data kvs'_def es'_def)
  have get: "dict_get kvs' ''mcpRepos'' = Some (JArr es')"
    by (simp add: kvs'_def dict_get_set_same)
  have ent: "entries kvs' = es'"
    by (simp add: entries_def get)
  have old: "list_all is_dict (entries kvs)"
    using ws by (auto simp: well_shaped_def entries_def split: option.splits json.splits)
  have dicts: "list_all is_dict es'"
    using old by (auto simp: es'_def updated_def list_all_iff is_dict_touch is_dict_new_entry)
  have hit: "list_ex (has_url u) es'"
    by (auto simp: es'_def updated_def list_ex_iff has_url_touch has_url_new_entry)
  have same: "map (touch u d) es' = es'"
    by (auto simp: es'_def updated_def touch_touch touch_new_entry map_touch_no_url)
  have ws': "well_shaped kvs'"
    by (simp add: well_shaped_def get dicts)
  have "updated kvs' u d = es'"
    by (simp add: updated_def ent hit same)
  with mutate_well_shaped [OF ws', of u d] show ?thesis
    by (simp add: data' kvs'_def dict_set_twice)
qed

subsection \<open>The example worlds\<close>

lemma json_load_one_file: "json_load (one_file p data) p = Inr data"
  by (simp add: json_load_def one_file_def regular_def)

lemma write_error_one_file: "write_error (fs (one_file p data) q) = None"
  by (simp add: one_file_def regular_def missing_def)

lemma store_one_file: "store (one_file p data) p data' = one_file p data'"
  by (simp add: store_def one_file_def regular_def)

subsection \<open>Successful and failed runs\<close>

lemma update_mcps_True:
  assumes "update_mcps w f u d = (True, w')"
  shows "\<exists>kvs. json_load w f = Inr (JObj kvs) \<and> well_shaped kvs \<and> write_error (fs w f) = None
           \<and> w' = store w f (JObj (dict_set ''mcpRepos'' (JArr (updated kvs u d)) kvs))"
proof -
  from assms obtain data data' where load: "json_load w f = Inr data"
    and mut: "mutate data u d = Inr data'" and dump: "json_dump w f data' = Inr w'"
    by (auto simp: update_mcps_def try_body_def split: sum.splits)
  obtain kvs where data: "data = JObj kvs"
    using mut mutate_not_dict [of data u d] by (auto simp: is_dict_iff)
  have ws: "well_shaped kvs"
    using mut mutate_ill_shaped [of kvs u d] by (auto simp: data)
  have "data' = JObj (dict_set ''mcpRepos'' (JArr (updated kvs u d)) kvs)"
    using mut mutate_well_shaped [OF ws, of u d] by (simp add: data)
  with dump load ws show ?thesis
    by (auto simp: json_dump_def data split: option.splits)
qed

lemma write_error_store: "write_error (fs (store w f data) f) = write_error (fs w f)"
  by (simp add: store_def)

lemma try_body_err:
  "try_body w f u d = Inl e \<Longrightarrow> try_body (w\<lparr>err := x\<rparr>) f u d = Inl e"
  by (auto simp: try_body_def json_load_def json_dump_def split: sum.splits option.splits)

section \<open>Properties of the update\<close>

text \<open>
  The theorems about documents are stated for a file that \<^verbatim>\<open>json.load\<close> parses to a
  JSON object and that can be opened for writing. Where a theorem speaks of the
  entries of the document, the entry list is a list of objects: the element of a list
  that is not an object has no \<^verbatim>\<open>get\<close>, and the update fails on it as a whole.
\<close>

text \<open>
  Claim C1. When the entry list of the document has at least one entry whose
  \<^verbatim>\<open>url\<close> is the given string, the update succeeds and writes the document back with
  the same entry list, in which every entry with that URL has the given description
  and every other entry is as it was: the list has the same length, so no entry is
  added, and with several entries of that URL all of them are updated.
\<close>

theorem update_overwrites_every_match:
  assumes "json_load w json_file = Inr (JObj kvs)"
    and "write_error (fs w json_file) = None"
    and "dict_get kvs ''mcpRepos'' = Some (JArr es)"
    and "list_all is_dict es"
    and "list_ex (has_url repo_url) es"
  shows "update_mcps w json_file repo_url description =
           (True, store w json_file
                    (JObj (dict_set ''mcpRepos'' (JArr (map (touch repo_url description) es)) kvs)))
         \<and> length (map (touch repo_url description) es) = length es
         \<and> (\<forall>i < length es. has_url repo_url (es ! i) \<longrightarrow>
               map (touch repo_url description) es ! i = set_description description (es ! i)
               \<and> field (map (touch repo_url description) es ! i) ''description''
                   = Some (JStr description))
         \<and> (\<forall>i < length es. \<not> has_url repo_url (es ! i) \<longrightarrow>
               map (touch repo_url description) es ! i = es ! i)"
proof -
  have ws: "well_shaped kvs"
    using assms(3,4) by (simp add: well_shaped_def)
  have upd: "updated kvs repo_url description = map (touch repo_url description) es"
    using assms(3,5) by (simp add: updated_def entries_def)
  have run: "update_mcps w json_file repo_url description =
           (True, store w json_file
                    (JObj (dict_set ''mcpRepos'' (JArr (map (touch repo_url description) es)) kvs)))"
    using update_mcps_well_shaped [OF assms(1) ws assms(2), of repo_url description]
    by (simp add: upd)
  have hit: "field (touch repo_url description r) ''description'' = Some (JStr description)"
    if "has_url repo_url r" for r
    using that
    by (cases r) (simp_all add: touch_def set_description_def field_def has_url_def dict_get_set_same)
  show ?thesis
    using run hit by (simp add: touch_def)
qed

text \<open>
  An instance: three entries, the first and the last with the URL \<^verbatim>\<open>u\<close>, the last
  without a description so far.
\<close>

theorem update_overwrites_every_match_witness:
  "list_ex (has_url ''u'')
     [JObj [(''name'', JStr ''a''), (''url'', JStr ''u''), (''description'', JStr ''old'')],
      JObj [(''name'', JStr ''b''), (''url'', JStr ''v''), (''description'', JStr ''other'')],
      JObj [(''name'', JStr ''c''), (''url'', JStr ''u'')]]
   \<and> update_mcps
       (one_file ''mcps.json'' (JObj [(''mcpRepos'', JArr
         [JObj [(''name'', JStr ''a''), (''url'', JStr ''u''), (''description'', JStr ''old'')],
          JObj [(''name'', JStr ''b''), (''url'', JStr ''v''), (''description'', JStr ''other'')],
          JObj [(''name'', JStr ''c''), (''url'', JStr ''u'')]])]))
       ''mcps.json'' ''u'' ''new''
     = (True, one_file ''mcps.json'' (JObj [(''mcpRepos'', JArr
         [JObj [(''name'', JStr ''a''), (''url'', JStr ''u''), (''description'', JStr ''new'')],
          JObj [(''name'', JStr ''b''), (''url'', JStr ''v''), (''description'', JStr ''other'')],
          JObj [(''name'', JStr ''c''), (''url'', JStr ''u''), (''description'', JStr ''new'')]])]))"
proof -
  let ?es = "[JObj [(''name'', JStr ''a''), (''url'', JStr ''u''), (''description'', JStr ''old'')],
      JObj [(''name'', JStr ''b''), (''url'', JStr ''v''), (''description'', JStr ''other'')],
      JObj [(''name'', JStr ''c''), (''url'', JStr ''u'')]]"
  have 1: "json_load (one_file ''mcps.json'' (JObj [(''mcpRepos'', JArr ?es)])) ''mcps.json''
           = Inr (JObj [(''mcpRepos'', JArr ?es)])"
    by (rule json_load_one_file)
  have 2: "write_error (fs (one_file ''mcps.json'' (JObj [(''mcpRepos'', JArr ?es)])) ''mcps.json'') = None"
    by (rule write_error_one_file)
  have 3: "dict_get [(''mcpRepos'', JArr ?es)] ''mcpRepos'' = Some (JArr ?es)"
    by simp
  have 4: "list_all is_dict ?es"
    by (simp add: is_dict_def)
  have 5: "list_ex (has_url ''u'') ?es"
    by (simp add: has_url_def field_def)
  show ?thesis
    using 5 update_overwrites_every_match [OF 1 2 3 4 5, of "''new''"]
    by (simp add: touch_def set_description_def has_url_def field_def store_one_file)
qed

text \<open>
  Claim C2. When the document has no \<^verbatim>\<open>mcpRepos\<close> field, the update succeeds for
  every URL and description: the field is created, at the end of the document, and
  holds a list of exactly one entry, with the name derived from the URL, the URL and
  the description.
\<close>

theorem update_creates_missing_list:
  assumes "json_load w json_file = Inr (JObj kvs)"
    and "write_error (fs w json_file) = None"
    and "dict_get kvs ''mcpRepos'' = None"
  shows "\<exists>name. repo_name repo_url = Inr name
           \<and> add_entry kvs (new_entry name repo_url description)
               = Inr (kvs @ [(''mcpRepos'', JArr [new_entry name repo_url description])])
           \<and> update_mcps w json_file repo_url description =
               (True, store w json_file
                  (JObj (kvs @ [(''mcpRepos'',
                     JArr [JObj [(''name'', JStr name), (''url'', JStr repo_url),
                                 (''description'', JStr description)]])])))"
proof -
  have ws: "well_shaped kvs"
    using assms(3) by (simp add: well_shaped_def)
  have ent: "entries kvs = []"
    using assms(3) by (simp add: entries_def)
  have set: "dict_set ''mcpRepos'' v kvs = kvs @ [(''mcpRepos'', v)]" for v
    using assms(3) by (rule dict_set_absent)
  have add: "add_entry kvs e = Inr (kvs @ [(''mcpRepos'', JArr [e])])" for e
    using assms(3) by (simp add: add_entry_eq ent set)
  have "update_mcps w json_file repo_url description =
          (True, store w json_file
             (JObj (kvs @ [(''mcpRepos'',
                JArr [new_entry (last (split CHR ''/'' repo_url)) repo_url description])])))"
    using update_mcps_well_shaped [OF assms(1) ws assms(2), of repo_url description]
    by (simp add: updated_def ent set)
  then show ?thesis
    by (simp add: repo_name_eq new_entry_def add)
qed

text \<open>An instance: the empty document \<^verbatim>\<open>{}\<close> and the URL \<^verbatim>\<open>https://x/y/z\<close>.\<close>

theorem update_creates_missing_list_witness:
  "dict_get ([] :: (string \<times> json) list) ''mcpRepos'' = None
   \<and> update_mcps (one_file ''mcps.json'' (JObj [])) ''mcps.json'' ''https://x/y/z'' ''desc''
     = (True, one_file ''mcps.json'' (JObj [(''mcpRepos'',
          JArr [JObj [(''name'', JStr ''z''), (''url'', JStr ''https://x/y/z''),
                      (''description'', JStr ''desc'')]])]))"
proof -
  have 1: "json_load (one_file ''mcps.json'' (JObj [])) ''mcps.json'' = Inr (JObj [])"
    by (rule json_load_one_file)
  have 2: "write_error (fs (one_file ''mcps.json'' (JObj [])) ''mcps.json'') = None"
    by (rule write_error_one_file)
  have 3: "dict_get ([] :: (string \<times> json) list) ''mcpRepos'' = None"
    by simp
  have n: "repo_name ''https://x/y/z'' = Inr ''z''"
    by (simp add: repo_name_def)
  show ?thesis
    using update_creates_missing_list [OF 1 2 3, of "''https://x/y/z''" "''desc''"]
    by (auto simp: n store_one_file)
qed

text \<open>
  Claim C3. When exactly one entry of the list has the given URL, the update
  succeeds and the document written differs from the one read in that entry only,
  and there in the \<^verbatim>\<open>description\<close> field only: every other field of the entry
  (its name and its URL among them) has the value it had, every other entry is
  unchanged, the document has the same keys in the same order, and every field of
  the document other than the entry list has the value it had.
\<close>

theorem update_changes_only_description:
  assumes "json_load w json_file = Inr (JObj kvs)"
    and "write_error (fs w json_file) = None"
    and "dict_get kvs ''mcpRepos'' = Some (JArr es)"
    and "list_all is_dict es"
    and "i < length es"
    and "es ! i = JObj flds"
    and "has_url repo_url (es ! i)"
    and "\<forall>j < length es. j \<noteq> i \<longrightarrow> \<not> has_url repo_url (es ! j)"
  shows "\<exists>flds' es' kvs'.
           update_mcps w json_file repo_url description = (True, store w json_file (JObj kvs'))
         \<and> kvs' = dict_set ''mcpRepos'' (JArr es') kvs
         \<and> es' = es[i := JObj flds']
         \<and> flds' = dict_set ''description'' (JStr description) flds
         \<and> dict_get flds' ''description'' = Some (JStr description)
         \<and> (\<forall>k. k \<noteq> ''description'' \<longrightarrow> dict_get flds' k = dict_get flds k)
         \<and> dict_get flds' ''name'' = dict_get flds ''name''
         \<and> dict_get flds' ''url'' = dict_get flds ''url''
         \<and> (\<forall>j < length es. j \<noteq> i \<longrightarrow> es' ! j = es ! j)
         \<and> length es' = length es
         \<and> map fst kvs' = map fst kvs
         \<and> (\<forall>k. k \<noteq> ''mcpRepos'' \<longrightarrow> dict_get kvs' k = dict_get kvs k)"
proof -
  define flds' where "flds' = dict_set ''description'' (JStr description) flds"
  define es' where "es' = es[i := JObj flds']"
  define kvs' where "kvs' = dict_set ''mcpRepos'' (JArr es') kvs"
  have ws: "well_shaped kvs"
    using assms(3,4) by (simp add: well_shaped_def)
  have any: "list_ex (has_url repo_url) es"
    using assms(5,7) by (auto simp: list_ex_iff)
  have "touch repo_url description (es ! j) = es' ! j" if "j < length es" for j
  proof (cases "j = i")
    case True
    then show ?thesis
      using assms(5,6,7) by (simp add: es'_def flds'_def touch_def set_description_def)
  next
    case False
    with that assms(8) have "\<not> has_url repo_url (es ! j)" by simp
    with False show ?thesis
      by (simp add: es'_def touch_def)
  qed
  then have "map (touch repo_url description) es = es'"
    by (simp add: list_eq_iff_nth_eq es'_def)
  then have upd: "updated kvs repo_url description = es'"
    using assms(3) any by (simp add: updated_def entries_def)
  have run: "update_mcps w json_file repo_url description = (True, store w json_file (JObj kvs'))"
    using update_mcps_well_shaped [OF assms(1) ws assms(2), of repo_url description]
    by (simp add: upd kvs'_def)
  have keys: "map fst kvs' = map fst kvs"
    unfolding kvs'_def by (rule dict_set_keys) (simp add: assms(3))
  show ?thesis
    using run keys
    by (simp add: kvs'_def [symmetric] es'_def [symmetric] flds'_def [symmetric])
      (simp add: kvs'_def es'_def flds'_def dict_get_set_same dict_get_set_other)
qed

text \<open>
  An instance: a document with another field before the list, and the second of
  three entries with the URL \<^verbatim>\<open>u\<close>.
\<close>

theorem update_changes_only_description_witness:
  "has_url ''u'' ([JObj [(''name'', JStr ''a''), (''url'', JStr ''v''), (''description'', JStr ''x'')],
                   JObj [(''name'', JStr ''b''), (''url'', JStr ''u''), (''description'', JStr ''old'')],
                   JObj [(''name'', JStr ''c''), (''url'', JStr ''w''), (''description'', JStr ''y'')]] ! 1)
   \<and> update_mcps
       (one_file ''mcps.json'' (JObj [(''version'', JInt 1), (''mcpRepos'', JArr
         [JObj [(''name'', JStr ''a''), (''url'', JStr ''v''), (''description'', JStr ''x'')],
          JObj [(''name'', JStr ''b''), (''url'', JStr ''u''), (''description'', JStr ''old'')],
          JObj [(''name'', JStr ''c''), (''url'', JStr ''w''), (''description'', JStr ''y'')]])]))
       ''mcps.json'' ''u'' ''new''
     = (True, one_file ''mcps.json'' (JObj [(''version'', JInt 1), (''mcpRepos'', JArr
         [JObj [(''name'', JStr ''a''), (''url'', JStr ''v''), (''description'', JStr ''x'')],
          JObj [(''name'', JStr ''b''), (''url'', JStr ''u''), (''description'', JStr ''new'')],
          JObj [(''name'', JStr ''c''), (''url'', JStr ''w''), (''description'', JStr ''y'')]])]))"
proof -
  let ?es = "[JObj [(''name'', JStr ''a''), (''url'', JStr ''v''), (''description'', JStr ''x'')],
              JObj [(''name'', JStr ''b''), (''url'', JStr ''u''), (''description'', JStr ''old'')],
              JObj [(''name'', JStr ''c''), (''url'', JStr ''w''), (''description'', JStr ''y'')]]"
  let ?kvs = "[(''version'', JInt 1), (''mcpRepos'', JArr ?es)]"
  have 1: "json_load (one_file ''mcps.json'' (JObj ?kvs)) ''mcps.json'' = Inr (JObj ?kvs)"
    by (rule json_load_one_file)
  have 2: "write_error (fs (one_file ''mcps.json'' (JObj ?kvs)) ''mcps.json'') = None"
    by (rule write_error_one_file)
  have 3: "dict_get ?kvs ''mcpRepos'' = Some (JArr ?es)"
    by simp
  have 4: "list_all is_dict ?es"
    by (simp add: is_dict_def)
  have 5: "1 < length ?es"
    by simp
  have 6: "?es ! 1 = JObj [(''name'', JStr ''b''), (''url'', JStr ''u''), (''description'', JStr ''old'')]"
    by simp
  have 7: "has_url ''u'' (?es ! 1)"
    by (simp add: has_url_def field_def)
  have 8: "\<forall>j < length ?es. j \<noteq> 1 \<longrightarrow> \<not> has_url ''u'' (?es ! j)"
    by (simp add: has_url_def field_def nth_Cons' less_Suc_eq numeral_3_eq_3)
  show ?thesis
    using 7 update_changes_only_description [OF 1 2 3 4 5 6 7 8, of "''new''"]
    by (auto simp: store_one_file)
qed

text \<open>
  Claim C4. When no entry has the given URL (the list is missing, or none of its
  entries has it), the update succeeds and adds, at the end of the list, an entry
  whose \<^verbatim>\<open>url\<close> and \<^verbatim>\<open>description\<close> are the arguments as given and whose
  \<^verbatim>\<open>name\<close> is the URL itself when the URL has no \<^verbatim>\<open>/\<close>, and otherwise what follows
  its last \<^verbatim>\<open>/\<close>. The name of \<^verbatim>\<open>https://example.com/org/my-repo\<close> is
  \<^verbatim>\<open>my-repo\<close>, and the name of \<^verbatim>\<open>toolname\<close> is \<^verbatim>\<open>toolname\<close>.
\<close>

theorem new_entry_name_after_last_slash:
  assumes "json_load w json_file = Inr (JObj kvs)"
    and "write_error (fs w json_file) = None"
    and "well_shaped kvs"
    and "\<not> list_ex (has_url repo_url) (entries kvs)"
  shows "\<exists>name.
           repo_name repo_url = Inr name
         \<and> update_mcps w json_file repo_url description =
             (True, store w json_file
                (JObj (dict_set ''mcpRepos''
                   (JArr (entries kvs @
                      [JObj [(''name'', JStr name), (''url'', JStr repo_url),
                             (''description'', JStr description)]])) kvs)))
         \<and> (CHR ''/'' \<notin> set repo_url \<longrightarrow> name = repo_url)
         \<and> (\<forall>p s. repo_url = p @ CHR ''/'' # s \<and> CHR ''/'' \<notin> set s \<longrightarrow> name = s)
         \<and> repo_name ''https://example.com/org/my-repo'' = Inr ''my-repo''
         \<and> repo_name ''toolname'' = Inr ''toolname''"
proof -
  have "update_mcps w json_file repo_url description =
          (True, store w json_file
             (JObj (dict_set ''mcpRepos''
                (JArr (entries kvs @
                   [new_entry (last (split CHR ''/'' repo_url)) repo_url description])) kvs)))"
    using update_mcps_well_shaped [OF assms(1) assms(3) assms(2), of repo_url description] assms(4)
    by (simp add: updated_def)
  moreover have "repo_name ''https://example.com/org/my-repo'' = Inr ''my-repo''"
    by (simp add: repo_name_def)
  moreover have "repo_name ''toolname'' = Inr ''toolname''"
    by (simp add: repo_name_def)
  ultimately show ?thesis
    by (simp add: repo_name_eq new_entry_def last_split_no_sep last_split_after)
qed

text \<open>
  An instance: a list with one entry of another URL, and the URL
  \<^verbatim>\<open>https://example.com/org/my-repo\<close>.
\<close>

theorem new_entry_name_after_last_slash_witness:
  "well_shaped [(''mcpRepos'', JArr [JObj [(''name'', JStr ''a''), (''url'', JStr ''v'')]])]
   \<and> \<not> list_ex (has_url ''https://example.com/org/my-repo'')
         (entries [(''mcpRepos'', JArr [JObj [(''name'', JStr ''a''), (''url'', JStr ''v'')]])])
   \<and> update_mcps
       (one_file ''mcps.json''
          (JObj [(''mcpRepos'', JArr [JObj [(''name'', JStr ''a''), (''url'', JStr ''v'')]])]))
       ''mcps.json'' ''https://example.com/org/my-repo'' ''desc''
     = (True, one_file ''mcps.json'' (JObj [(''mcpRepos'', JArr
         [JObj [(''name'', JStr ''a''), (''url'', JStr ''v'')],
          JObj [(''name'', JStr ''my-repo''), (''url'', JStr ''https://example.com/org/my-repo''),
                (''description'', JStr ''desc'')]])]))"
proof -
  let ?kvs = "[(''mcpRepos'', JArr [JObj [(''name'', JStr ''a''), (''url'', JStr ''v'')]])]"
  have 1: "json_load (one_file ''mcps.json'' (JObj ?kvs)) ''mcps.json'' = Inr (JObj ?kvs)"
    by (rule json_load_one_file)
  have 2: "write_error (fs (one_file ''mcps.json'' (JObj ?kvs)) ''mcps.json'') = None"
    by (rule write_error_one_file)
  have 3: "well_shaped ?kvs"
    by (simp add: well_shaped_def is_dict_def)
  have 4: "\<not> list_ex (has_url ''https://example.com/org/my-repo'') (entries ?kvs)"
    by (simp add: entries_def has_url_def field_def)
  have e: "entries ?kvs = [JObj [(''name'', JStr ''a''), (''url'', JStr ''v'')]]"
    by (simp add: entries_def)
  show ?thesis
    using 3 4 new_entry_name_after_last_slash [OF 1 2 3 4, of "''desc''"]
    by (auto simp: e store_one_file)
qed

text \<open>
  Claim C10. When the URL ends with \<^verbatim>\<open>/\<close> and no entry has it, the update
  succeeds and the entry added at the end of the list has the empty string as its
  name.
\<close>

theorem trailing_slash_gives_empty_name:
  assumes "json_load w json_file = Inr (JObj kvs)"
    and "write_error (fs w json_file) = None"
    and "well_shaped kvs"
    and "\<not> list_ex (has_url repo_url) (entries kvs)"
    and "repo_url \<noteq> []"
    and "last repo_url = CHR ''/''"
  shows "repo_name repo_url = Inr []
         \<and> update_mcps w json_file repo_url description =
             (True, store w json_file
                (JObj (dict_set ''mcpRepos''
                   (JArr (entries kvs @
                      [JObj [(''name'', JStr []), (''url'', JStr repo_url),
                             (''description'', JStr description)]])) kvs)))"
proof -
  from assms(5,6) have "repo_url = butlast repo_url @ CHR ''/'' # []"
    by (metis append_butlast_last_id)
  then have "last (split CHR ''/'' repo_url) = last (split CHR ''/'' (butlast repo_url @ CHR ''/'' # []))"
    by simp
  also have "\<dots> = []"
    by (rule last_split_after) simp
  finally have name: "last (split CHR ''/'' repo_url) = []" .
  have "update_mcps w json_file repo_url description =
          (True, store w json_file
             (JObj (dict_set ''mcpRepos''
                (JArr (entries kvs @
                   [new_entry (last (split CHR ''/'' repo_url)) repo_url description])) kvs)))"
    using update_mcps_well_shaped [OF assms(1) assms(3) assms(2), of repo_url description] assms(4)
    by (simp add: updated_def)
  then show ?thesis
    by (simp add: repo_name_eq name new_entry_def)
qed

text \<open>An instance: the document \<^verbatim>\<open>{"mcpRepos": []}\<close> and the URL \<^verbatim>\<open>https://x/y/\<close>.\<close>

theorem trailing_slash_gives_empty_name_witness:
  "last ''https://x/y/'' = CHR ''/''
   \<and> update_mcps (one_file ''mcps.json'' (JObj [(''mcpRepos'', JArr [])]))
       ''mcps.json'' ''https://x/y/'' ''desc''
     = (True, one_file ''mcps.json'' (JObj [(''mcpRepos'', JArr
         [JObj [(''name'', JStr ''''), (''url'', JStr ''https://x/y/''),
                (''description'', JStr ''desc'')]])]))"
proof -
  let ?kvs = "[(''mcpRepos'', JArr [])]"
  have 1: "json_load (one_file ''mcps.json'' (JObj ?kvs)) ''mcps.json'' = Inr (JObj ?kvs)"
    by (rule json_load_one_file)
  have 2: "write_error (fs (one_file ''mcps.json'' (JObj ?kvs)) ''mcps.json'') = None"
    by (rule write_error_one_file)
  have 3: "well_shaped ?kvs"
    by (simp add: well_shaped_def)
  have 4: "\<not> list_ex (has_url ''https://x/y/'') (entries ?kvs)"
    by (simp add: entries_def)
  have 5: "''https://x/y/'' \<noteq> []"
    by simp
  have 6: "last ''https://x/y/'' = CHR ''/''"
    by simp
  show ?thesis
    using 6 trailing_slash_gives_empty_name [OF 1 2 3 4 5 6, of "''desc''"]
    by (simp add: entries_def store_one_file)
qed

section \<open>Errors and the exit status\<close>

text \<open>
  Claim C5. \<^verbatim>\<open>update_mcps\<close> always returns: when a step of the body raises (the
  read or the parse in \<^verbatim>\<open>json_load\<close>, the update of the document, the write), the
  exception is caught, the line \<^verbatim>\<open>Error updating JSON file: \<close> followed by the text
  of the exception is added to standard error, and the result is \<^verbatim>\<open>False\<close>. When
  no step raises, the result is \<^verbatim>\<open>True\<close>. The result is \<^verbatim>\<open>False\<close> exactly when
  some step raises.
\<close>

theorem update_mcps_catches_every_error:
  "(\<forall>e. json_load w json_file = Inl e \<longrightarrow>
      update_mcps w json_file repo_url description
        = (False, w\<lparr>err := err w @ [''Error updating JSON file: '' @ str e]\<rparr>))
   \<and> (\<forall>data e. json_load w json_file = Inr data \<and> mutate data repo_url description = Inl e \<longrightarrow>
      update_mcps w json_file repo_url description
        = (False, w\<lparr>err := err w @ [''Error updating JSON file: '' @ str e]\<rparr>))
   \<and> (\<forall>data data' e. json_load w json_file = Inr data
          \<and> mutate data repo_url description = Inr data'
          \<and> json_dump w json_file data' = Inl e \<longrightarrow>
      update_mcps w json_file repo_url description
        = (False, w\<lparr>err := err w @ [''Error updating JSON file: '' @ str e]\<rparr>))
   \<and> (\<forall>data data' w'. json_load w json_file = Inr data
          \<and> mutate data repo_url description = Inr data'
          \<and> json_dump w json_file data' = Inr w' \<longrightarrow>
      update_mcps w json_file repo_url description = (True, w'))
   \<and> (fst (update_mcps w json_file repo_url description) = False
        \<longleftrightarrow> (\<exists>e. try_body w json_file repo_url description = Inl e))"
  by (auto simp: update_mcps_def try_body_def split: sum.splits)

text \<open>
  An instance for each step: a missing file, a file that is not JSON, a document that
  is a list, and a file that cannot be opened for writing; and one where no step
  raises.
\<close>

theorem update_mcps_catches_every_error_witness:
  "update_mcps (one_file ''mcps.json'' (JObj [])) ''none.json'' ''u'' ''d''
     = (False, (one_file ''mcps.json'' (JObj []))
          \<lparr>err := [''Error updating JSON file: [Errno 2] No such file or directory: ''
                   @ [CHR 0x27] @ ''none.json'' @ [CHR 0x27]]\<rparr>)
   \<and> update_mcps \<lparr>fs = \<lambda>p. \<lparr>contents = Inl ''Expecting value: line 1 column 1 (char 0)'',
                              read_error = None, write_error = None\<rparr>, out = [], err = []\<rparr>
        ''mcps.json'' ''u'' ''d''
     = (False, \<lparr>fs = \<lambda>p. \<lparr>contents = Inl ''Expecting value: line 1 column 1 (char 0)'',
                             read_error = None, write_error = None\<rparr>, out = [],
                err = [''Error updating JSON file: Expecting value: line 1 column 1 (char 0)'']\<rparr>)
   \<and> update_mcps (one_file ''mcps.json'' (JArr [])) ''mcps.json'' ''u'' ''d''
     = (False, (one_file ''mcps.json'' (JArr []))
          \<lparr>err := [''Error updating JSON file: '' @ str (no_attribute (JArr []) ''get'')]\<rparr>)
   \<and> update_mcps \<lparr>fs = \<lambda>p. \<lparr>contents = Inr (JObj []), read_error = None,
                              write_error = Some ''[Errno 13] Permission denied''\<rparr>,
                   out = [], err = []\<rparr>
        ''mcps.json'' ''u'' ''d''
     = (False, \<lparr>fs = \<lambda>p. \<lparr>contents = Inr (JObj []), read_error = None,
                             write_error = Some ''[Errno 13] Permission denied''\<rparr>,
                out = [], err = [''Error updating JSON file: [Errno 13] Permission denied'']\<rparr>)
   \<and> update_mcps (one_file ''mcps.json'' (JObj [])) ''mcps.json'' ''u'' ''d''
     = (True, one_file ''mcps.json'' (JObj [(''mcpRepos'', JArr [new_entry ''u'' ''u'' ''d''])]))"
proof -
  let ?w1 = "one_file ''mcps.json'' (JObj [])"
  let ?w2 = "\<lparr>fs = \<lambda>p. \<lparr>contents = Inl ''Expecting value: line 1 column 1 (char 0)'',
                              read_error = None, write_error = None\<rparr>, out = [], err = []\<rparr>"
  let ?w3 = "one_file ''mcps.json'' (JArr [])"
  let ?w4 = "\<lparr>fs = \<lambda>p. \<lparr>contents = Inr (JObj []), read_error = None,
                              write_error = Some ''[Errno 13] Permission denied''\<rparr>,
                   out = [], err = []\<rparr>"
  have 1: "json_load ?w1 ''none.json''
             = Inl (OSError (''[Errno 2] No such file or directory: '' @ [CHR 0x27] @ ''none.json'' @ [CHR 0x27]))"
    by (simp add: json_load_def one_file_def missing_def)
  have 2: "json_load ?w2 ''mcps.json'' = Inl (JSONDecodeError ''Expecting value: line 1 column 1 (char 0)'')"
    by (simp add: json_load_def)
  have 3: "json_load ?w3 ''mcps.json'' = Inr (JArr [])
           \<and> mutate (JArr []) ''u'' ''d'' = Inl (no_attribute (JArr []) ''get'')"
    by (simp add: json_load_one_file mutate_def)
  have 4: "json_load ?w4 ''mcps.json'' = Inr (JObj [])
           \<and> mutate (JObj []) ''u'' ''d'' = Inr (JObj [(''mcpRepos'', JArr [new_entry ''u'' ''u'' ''d''])])
           \<and> json_dump ?w4 ''mcps.json'' (JObj [(''mcpRepos'', JArr [new_entry ''u'' ''u'' ''d''])])
               = Inl (OSError ''[Errno 13] Permission denied'')"
    by (simp add: json_load_def json_dump_def mutate_def repo_name_def add_entry_def)
  have a: "update_mcps ?w1 ''none.json'' ''u'' ''d''
     = (False, ?w1\<lparr>err := err ?w1 @ [''Error updating JSON file: '' @ str (OSError (''[Errno 2] No such file or directory: '' @ [CHR 0x27] @ ''none.json'' @ [CHR 0x27]))]\<rparr>)"
    using update_mcps_catches_every_error [of ?w1 "''none.json''" "''u''" "''d''"] 1 by blast
  have b: "update_mcps ?w2 ''mcps.json'' ''u'' ''d''
     = (False, ?w2\<lparr>err := err ?w2 @ [''Error updating JSON file: '' @ str (JSONDecodeError ''Expecting value: line 1 column 1 (char 0)'')]\<rparr>)"
    using update_mcps_catches_every_error [of ?w2 "''mcps.json''" "''u''" "''d''"] 2 by blast
  have c: "update_mcps ?w3 ''mcps.json'' ''u'' ''d''
     = (False, ?w3\<lparr>err := err ?w3 @ [''Error updating JSON file: '' @ str (no_attribute (JArr []) ''get'')]\<rparr>)"
    using update_mcps_catches_every_error [of ?w3 "''mcps.json''" "''u''" "''d''"] 3 by blast
  have d: "update_mcps ?w4 ''mcps.json'' ''u'' ''d''
     = (False, ?w4\<lparr>err := err ?w4 @ [''Error updating JSON file: '' @ str (OSError ''[Errno 13] Permission denied'')]\<rparr>)"
    using update_mcps_catches_every_error [of ?w4 "''mcps.json''" "''u''" "''d''"] 4 by blast
  have 5: "json_load ?w1 ''mcps.json'' = Inr (JObj [])
           \<and> mutate (JObj []) ''u'' ''d'' = Inr (JObj [(''mcpRepos'', JArr [new_entry ''u'' ''u'' ''d''])])
           \<and> json_dump ?w1 ''mcps.json'' (JObj [(''mcpRepos'', JArr [new_entry ''u'' ''u'' ''d''])])
               = Inr (one_file ''mcps.json'' (JObj [(''mcpRepos'', JArr [new_entry ''u'' ''u'' ''d''])]))"
    by (simp add: json_load_one_file json_dump_def write_error_one_file store_one_file
        mutate_def repo_name_def add_entry_def)
  have e: "update_mcps ?w1 ''mcps.json'' ''u'' ''d''
     = (True, one_file ''mcps.json'' (JObj [(''mcpRepos'', JArr [new_entry ''u'' ''u'' ''d''])]))"
    using update_mcps_catches_every_error [of ?w1 "''mcps.json''" "''u''" "''d''"] 5 by blast
  have e1: "err ?w1 = []" and e3: "err ?w3 = []"
    by (simp_all add: one_file_def)
  show ?thesis
    using a b c d e by (simp add: e1 e3)
qed

text \<open>
  Claim C6 says that a \<^verbatim>\<open>mcpRepos\<close> field that is not a list is treated as a missing
  one and the entry is added. The program does this for a missing field only: on
  the document \<^verbatim>\<open>{"mcpRepos": null}\<close> the loop raises \<^verbatim>\<open>TypeError\<close>, the update
  returns \<^verbatim>\<open>False\<close> and the file keeps its contents, whereas on \<^verbatim>\<open>{}\<close> the entry is
  added.
\<close>

theorem wrong_typed_list_counterexample:
  "update_mcps (one_file ''mcps.json'' (JObj [(''mcpRepos'', JNull)]))
       ''mcps.json'' ''https://x/y/z'' ''desc''
     = (False, (one_file ''mcps.json'' (JObj [(''mcpRepos'', JNull)]))
          \<lparr>err := [''Error updating JSON file: '' @ [CHR 0x27] @ ''NoneType'' @ [CHR 0x27]
                   @ '' object is not iterable'']\<rparr>)
   \<and> update_mcps (one_file ''mcps.json'' (JObj []))
       ''mcps.json'' ''https://x/y/z'' ''desc''
     = (True, one_file ''mcps.json'' (JObj [(''mcpRepos'',
          JArr [JObj [(''name'', JStr ''z''), (''url'', JStr ''https://x/y/z''),
                      (''description'', JStr ''desc'')]])]))"
proof -
  let ?w = "one_file ''mcps.json'' (JObj [(''mcpRepos'', JNull)])"
  have load: "json_load ?w ''mcps.json'' = Inr (JObj [(''mcpRepos'', JNull)])"
    by (rule json_load_one_file)
  have raise: "mutate (JObj [(''mcpRepos'', JNull)]) ''https://x/y/z'' ''desc''
                 = Inl (not_iterable JNull)"
    by (simp add: mutate_def)
  have quiet: "err ?w = []"
    by (simp add: one_file_def)
  have line: "err ?w @ [''Error updating JSON file: '' @ str (not_iterable JNull)]
                = [''Error updating JSON file: '' @ [CHR 0x27] @ ''NoneType'' @ [CHR 0x27]
                   @ '' object is not iterable'']"
    by (simp add: quiet not_iterable_def)
  have wrong: "update_mcps ?w ''mcps.json'' ''https://x/y/z'' ''desc''
     = (False, ?w\<lparr>err := [''Error updating JSON file: '' @ [CHR 0x27] @ ''NoneType'' @ [CHR 0x27]
                   @ '' object is not iterable'']\<rparr>)"
    using update_mcps_mutate_error [OF load raise] unfolding line .
  have absent: "update_mcps (one_file ''mcps.json'' (JObj []))
       ''mcps.json'' ''https://x/y/z'' ''desc''
     = (True, one_file ''mcps.json'' (JObj [(''mcpRepos'',
          JArr [JObj [(''name'', JStr ''z''), (''url'', JStr ''https://x/y/z''),
                      (''description'', JStr ''desc'')]])]))"
    by (simp add: update_mcps_def try_body_def json_load_one_file mutate_def
      json_dump_def write_error_one_file store_one_file repo_name_def add_entry_def
      new_entry_def)
  show ?thesis
    using wrong absent by (rule conjI)
qed

text \<open>
  Claim C6, amended. When the \<^verbatim>\<open>mcpRepos\<close> field of the document is present and is
  not a list, the update of the document raises an exception, whatever the value
  is: \<^verbatim>\<open>update_mcps\<close> returns \<^verbatim>\<open>False\<close>, reports the error on standard error and
  leaves the file as it was. No entry is added.
\<close>

theorem wrong_typed_list_fails:
  assumes "json_load w json_file = Inr (JObj kvs)"
    and "dict_get kvs ''mcpRepos'' = Some v"
    and "\<not> is_list v"
  shows "\<exists>e. mutate (JObj kvs) repo_url description = Inl e
           \<and> update_mcps w json_file repo_url description
               = (False, w\<lparr>err := err w @ [''Error updating JSON file: '' @ str e]\<rparr>)"
proof -
  have "\<not> well_shaped kvs"
    using assms(2,3) by (cases v) (simp_all add: well_shaped_def is_list_def)
  then obtain e where e: "mutate (JObj kvs) repo_url description = Inl e"
    using mutate_ill_shaped by blast
  from update_mcps_mutate_error [OF assms(1) e] e show ?thesis
    by blast
qed

text \<open>
  An instance: the field holds the empty string, over which the loop does not run
  at all; the update fails at \<^verbatim>\<open>append\<close>.
\<close>

theorem wrong_typed_list_fails_witness:
  "\<not> is_list (JStr [])
   \<and> (\<exists>e. mutate (JObj [(''mcpRepos'', JStr [])]) ''u'' ''d'' = Inl e
         \<and> update_mcps (one_file ''mcps.json'' (JObj [(''mcpRepos'', JStr [])])) ''mcps.json'' ''u'' ''d''
             = (False, (one_file ''mcps.json'' (JObj [(''mcpRepos'', JStr [])]))
                  \<lparr>err := err (one_file ''mcps.json'' (JObj [(''mcpRepos'', JStr [])]))
                        @ [''Error updating JSON file: '' @ str e]\<rparr>))"
proof -
  have 1: "json_load (one_file ''mcps.json'' (JObj [(''mcpRepos'', JStr [])])) ''mcps.json''
             = Inr (JObj [(''mcpRepos'', JStr [])])"
    by (rule json_load_one_file)
  have 2: "dict_get [(''mcpRepos'', JStr [])] ''mcpRepos'' = Some (JStr [])"
    by simp
  have 3: "\<not> is_list (JStr [])"
    by (simp add: is_list_def)
  show ?thesis
    by (rule conjI [OF 3 wrong_typed_list_fails [OF 1 2 3]])
qed

text \<open>
  Claim C7. \<^verbatim>\<open>sys.argv\<close> is the name of the script followed by the positional
  arguments. With fewer than three arguments the program prints the usage line on
  standard output and exits with status 1; no file and nothing of standard error
  changes. With three arguments the program exits with status 0 when the update
  succeeds (and with status 1 when it fails), in the world the update leaves.
\<close>

theorem main_exit_status:
  "(length args < 3 \<longrightarrow>
      main (prog # args) w = (1, w\<lparr>out := out w @ [usage]\<rparr>)
      \<and> fs (snd (main (prog # args) w)) = fs w
      \<and> err (snd (main (prog # args) w)) = err w)
   \<and> (length args = 3 \<and> fst (update_mcps w (args ! 0) (args ! 1) (args ! 2)) \<longrightarrow>
      main (prog # args) w = (0, snd (update_mcps w (args ! 0) (args ! 1) (args ! 2))))
   \<and> (length args = 3 \<and> \<not> fst (update_mcps w (args ! 0) (args ! 1) (args ! 2)) \<longrightarrow>
      main (prog # args) w = (1, snd (update_mcps w (args ! 0) (args ! 1) (args ! 2))))
   \<and> usage = ''Usage: python mcps.py JSON_FILE REPO_URL DESCRIPTION''"
  by (auto simp: main_def usage_def split: prod.splits)

text \<open>
  Instances: two arguments, and three arguments on the document \<^verbatim>\<open>{"mcpRepos": []}\<close>.
\<close>

theorem main_exit_status_witness:
  "main [''mcps.py'', ''mcps.json'', ''https://x/y/z''] (one_file ''mcps.json'' (JObj [(''mcpRepos'', JArr [])]))
     = (1, (one_file ''mcps.json'' (JObj [(''mcpRepos'', JArr [])]))
             \<lparr>out := [''Usage: python mcps.py JSON_FILE REPO_URL DESCRIPTION'']\<rparr>)
   \<and> main [''mcps.py'', ''mcps.json'', ''https://x/y/z'', ''desc'']
        (one_file ''mcps.json'' (JObj [(''mcpRepos'', JArr [])]))
     = (0, one_file ''mcps.json'' (JObj [(''mcpRepos'',
          JArr [JObj [(''name'', JStr ''z''), (''url'', JStr ''https://x/y/z''),
                      (''description'', JStr ''desc'')]])]))"
proof -
  let ?w = "one_file ''mcps.json'' (JObj [(''mcpRepos'', JArr [])])"
  have run: "update_mcps ?w ''mcps.json'' ''https://x/y/z'' ''desc''
     = (True, one_file ''mcps.json'' (JObj [(''mcpRepos'',
          JArr [JObj [(''name'', JStr ''z''), (''url'', JStr ''https://x/y/z''),
                      (''description'', JStr ''desc'')]])]))"
    by (simp add: update_mcps_def try_body_def json_load_one_file mutate_def
      json_dump_def write_error_one_file store_one_file repo_name_def add_entry_def
      new_entry_def)
  have o: "out ?w = []"
    by (simp add: one_file_def)
  have a: "main [''mcps.py'', ''mcps.json'', ''https://x/y/z''] ?w
             = (1, ?w\<lparr>out := [''Usage: python mcps.py JSON_FILE REPO_URL DESCRIPTION'']\<rparr>)"
    using main_exit_status [of "[''mcps.json'', ''https://x/y/z'']" "''mcps.py''" ?w]
    by (simp add: o)
  have b: "main [''mcps.py'', ''mcps.json'', ''https://x/y/z'', ''desc''] ?w
             = (0, snd (update_mcps ?w ''mcps.json'' ''https://x/y/z'' ''desc''))"
    using main_exit_status [of "[''mcps.json'', ''https://x/y/z'', ''desc'']" "''mcps.py''" ?w] run
    by simp
  show ?thesis
    using a b run by simp
qed

section \<open>Order and idempotence\<close>

text \<open>
  Claim C8. After every successful update the entry list of the written document
  starts with the entries of the document read, in the same order, each at the
  index it had (with its description replaced where its URL is the given one). When
  some entry has the URL, that is the whole list; when none has, the list is the old
  list, unchanged, followed by the new entry as its last element.
\<close>

theorem update_keeps_entry_order:
  assumes "update_mcps w json_file repo_url description = (True, w')"
  shows "\<exists>kvs es'.
           json_load w json_file = Inr (JObj kvs)
         \<and> well_shaped kvs
         \<and> json_load w' json_file = Inr (JObj (dict_set ''mcpRepos'' (JArr es') kvs))
         \<and> take (length (entries kvs)) es' = map (touch repo_url description) (entries kvs)
         \<and> (\<forall>i < length (entries kvs). es' ! i = touch repo_url description (entries kvs ! i))
         \<and> (list_ex (has_url repo_url) (entries kvs) \<longrightarrow>
               es' = map (touch repo_url description) (entries kvs))
         \<and> (\<not> list_ex (has_url repo_url) (entries kvs) \<longrightarrow>
               (\<exists>name. repo_name repo_url = Inr name
                  \<and> es' = entries kvs @ [new_entry name repo_url description]))"
proof -
  from update_mcps_True [OF assms] obtain kvs
    where load: "json_load w json_file = Inr (JObj kvs)" and ws: "well_shaped kvs"
      and w': "w' = store w json_file
                (JObj (dict_set ''mcpRepos'' (JArr (updated kvs repo_url description)) kvs))"
    by blast
  have load': "json_load w' json_file
                 = Inr (JObj (dict_set ''mcpRepos'' (JArr (updated kvs repo_url description)) kvs))"
    unfolding w' using json_load_Inr_read [OF load] by (rule json_load_store)
  have old: "take (length (entries kvs)) (updated kvs repo_url description)
               = map (touch repo_url description) (entries kvs)"
    by (simp add: updated_def map_touch_no_url)
  have at: "\<forall>i < length (entries kvs).
              updated kvs repo_url description ! i = touch repo_url description (entries kvs ! i)"
    by (simp add: updated_def nth_append touch_no_url list_ex_iff)
  have new: "\<not> list_ex (has_url repo_url) (entries kvs) \<longrightarrow>
               (\<exists>name. repo_name repo_url = Inr name
                  \<and> updated kvs repo_url description
                      = entries kvs @ [new_entry name repo_url description])"
    by (simp add: updated_def repo_name_eq)
  have hit: "list_ex (has_url repo_url) (entries kvs) \<longrightarrow>
               updated kvs repo_url description = map (touch repo_url description) (entries kvs)"
    by (simp add: updated_def)
  from load ws load' old at hit new show ?thesis
    by blast
qed

text \<open>
  An instance: two entries, neither with the URL \<^verbatim>\<open>w\<close>; the new entry comes
  third.
\<close>

theorem update_keeps_entry_order_witness:
  "update_mcps
       (one_file ''mcps.json'' (JObj [(''mcpRepos'', JArr
         [JObj [(''name'', JStr ''b''), (''url'', JStr ''v'')],
          JObj [(''name'', JStr ''a''), (''url'', JStr ''u'')]])]))
       ''mcps.json'' ''w'' ''d''
     = (True, one_file ''mcps.json'' (JObj [(''mcpRepos'', JArr
         [JObj [(''name'', JStr ''b''), (''url'', JStr ''v'')],
          JObj [(''name'', JStr ''a''), (''url'', JStr ''u'')],
          JObj [(''name'', JStr ''w''), (''url'', JStr ''w''), (''description'', JStr ''d'')]])]))
   \<and> (\<exists>kvs es'.
           json_load (one_file ''mcps.json'' (JObj [(''mcpRepos'', JArr
              [JObj [(''name'', JStr ''b''), (''url'', JStr ''v'')],
               JObj [(''name'', JStr ''a''), (''url'', JStr ''u'')]])])) ''mcps.json'' = Inr (JObj kvs)
         \<and> well_shaped kvs
         \<and> json_load (one_file ''mcps.json'' (JObj [(''mcpRepos'', JArr
              [JObj [(''name'', JStr ''b''), (''url'', JStr ''v'')],
               JObj [(''name'', JStr ''a''), (''url'', JStr ''u'')],
               JObj [(''name'', JStr ''w''), (''url'', JStr ''w''), (''description'', JStr ''d'')]])]))
             ''mcps.json'' = Inr (JObj (dict_set ''mcpRepos'' (JArr es') kvs))
         \<and> take (length (entries kvs)) es' = map (touch ''w'' ''d'') (entries kvs)
         \<and> (\<forall>i < length (entries kvs). es' ! i = touch ''w'' ''d'' (entries kvs ! i))
         \<and> (list_ex (has_url ''w'') (entries kvs) \<longrightarrow>
               es' = map (touch ''w'' ''d'') (entries kvs))
         \<and> (\<not> list_ex (has_url ''w'') (entries kvs) \<longrightarrow>
               (\<exists>name. repo_name ''w'' = Inr name
                  \<and> es' = entries kvs @ [new_entry name ''w'' ''d''])))"
proof -
  have run: "update_mcps
       (one_file ''mcps.json'' (JObj [(''mcpRepos'', JArr
         [JObj [(''name'', JStr ''b''), (''url'', JStr ''v'')],
          JObj [(''name'', JStr ''a''), (''url'', JStr ''u'')]])]))
       ''mcps.json'' ''w'' ''d''
     = (True, one_file ''mcps.json'' (JObj [(''mcpRepos'', JArr
         [JObj [(''name'', JStr ''b''), (''url'', JStr ''v'')],
          JObj [(''name'', JStr ''a''), (''url'', JStr ''u'')],
          JObj [(''name'', JStr ''w''), (''url'', JStr ''w''), (''description'', JStr ''d'')]])]))"
    by (simp add: update_mcps_def try_body_def json_load_one_file mutate_def
      json_dump_def write_error_one_file store_one_file repo_name_def add_entry_def
      new_entry_def)
  show ?thesis
    by (rule conjI [OF run update_keeps_entry_order [OF run]])
qed

text \<open>
  Claim C9. Running the update a second time, with the same file, URL and
  description, in the world the first run left, leaves every file as the first run
  left it and returns what the first run returned. After a successful first run the
  second run changes nothing at all: it finds an entry with the URL, the one the
  first run updated or added, and writes the description that entry already has. On
  documents: the update of an updated document is that document.
\<close>

theorem update_mcps_idempotent:
  "fs (snd (update_mcps (snd (update_mcps w json_file repo_url description))
              json_file repo_url description))
     = fs (snd (update_mcps w json_file repo_url description))
   \<and> fst (update_mcps (snd (update_mcps w json_file repo_url description))
              json_file repo_url description)
     = fst (update_mcps w json_file repo_url description)
   \<and> (fst (update_mcps w json_file repo_url description) \<longrightarrow>
        update_mcps (snd (update_mcps w json_file repo_url description))
          json_file repo_url description
        = update_mcps w json_file repo_url description)
   \<and> (\<forall>data data'. mutate data repo_url description = Inr data' \<longrightarrow>
        mutate data' repo_url description = Inr data')"
proof (cases "try_body w json_file repo_url description")
  case (Inl e)
  define w1 where "w1 = w\<lparr>err := err w @ [''Error updating JSON file: '' @ str e]\<rparr>"
  have first: "update_mcps w json_file repo_url description = (False, w1)"
    by (simp add: update_mcps_def Inl w1_def)
  have "try_body w1 json_file repo_url description = Inl e"
    unfolding w1_def using Inl by (rule try_body_err)
  then have "update_mcps w1 json_file repo_url description
               = (False, w1\<lparr>err := err w1 @ [''Error updating JSON file: '' @ str e]\<rparr>)"
    by (simp add: update_mcps_def)
  with first show ?thesis
    by (simp add: mutate_idem)
next
  case (Inr w')
  then have first: "update_mcps w json_file repo_url description = (True, w')"
    by (simp add: update_mcps_def)
  from update_mcps_True [OF first] obtain kvs data'
    where load: "json_load w json_file = Inr (JObj kvs)"
      and data': "data' = JObj (dict_set ''mcpRepos'' (JArr (updated kvs repo_url description)) kvs)"
      and ws: "well_shaped kvs"
      and wr: "write_error (fs w json_file) = None"
      and w': "w' = store w json_file data'"
    by blast
  have mut: "mutate (JObj kvs) repo_url description = Inr data'"
    unfolding data' using ws by (rule mutate_well_shaped)
  have load': "json_load w' json_file = Inr data'"
    unfolding w' using json_load_Inr_read [OF load] by (rule json_load_store)
  have wr': "write_error (fs w' json_file) = None"
    by (simp add: w' write_error_store wr)
  have "update_mcps w' json_file repo_url description = (True, store w' json_file data')"
    using load' mutate_idem [OF mut] wr' by (rule update_mcps_ok)
  then have "update_mcps w' json_file repo_url description = (True, w')"
    by (simp add: w' store_store)
  with first show ?thesis
    by (simp add: mutate_idem)
qed

text \<open>
  An instance: the document \<^verbatim>\<open>{}\<close>; the first run adds the entry, the second
  finds it.
\<close>

theorem update_mcps_idempotent_witness:
  "update_mcps (one_file ''mcps.json'' (JObj [])) ''mcps.json'' ''https://x/y/z'' ''desc''
     = (True, one_file ''mcps.json'' (JObj [(''mcpRepos'',
          JArr [JObj [(''name'', JStr ''z''), (''url'', JStr ''https://x/y/z''),
                      (''description'', JStr ''desc'')]])]))
   \<and> update_mcps (one_file ''mcps.json'' (JObj [(''mcpRepos'',
          JArr [JObj [(''name'', JStr ''z''), (''url'', JStr ''https://x/y/z''),
                      (''description'', JStr ''desc'')]])]))
       ''mcps.json'' ''https://x/y/z'' ''desc''
     = (True, one_file ''mcps.json'' (JObj [(''mcpRepos'',
          JArr [JObj [(''name'', JStr ''z''), (''url'', JStr ''https://x/y/z''),
                      (''description'', JStr ''desc'')]])]))"
proof -
  let ?w = "one_file ''mcps.json'' (JObj [])"
  have run: "update_mcps ?w ''mcps.json'' ''https://x/y/z'' ''desc''
     = (True, one_file ''mcps.json'' (JObj [(''mcpRepos'',
          JArr [JObj [(''name'', JStr ''z''), (''url'', JStr ''https://x/y/z''),
                      (''description'', JStr ''desc'')]])]))"
    by (simp add: update_mcps_def try_body_def json_load_one_file mutate_def
      json_dump_def write_error_one_file store_one_file repo_name_def add_entry_def
      new_entry_def)
  show ?thesis
    using update_mcps_idempotent [of ?w "''mcps.json''" "''https://x/y/z''" "''desc''"]
    unfolding run by simp
qed

end
